theory Spec2Isabelle
  imports Complex_Main
begin

section \<open>Masked sequence-to-sequence metrics (pytext/metrics/mask\_metrics.py)\<close>

text \<open>
  The module aggregates length-prediction accuracy per beam width, combines it with the
  frame metrics of the intent-slot module, and scores a size-normalised objective.

  Conventions of the embedding.
  \<^item> A Python exception is a value of \<open>py_error\<close>; a function that can raise returns
    \<open>py_error + 'a\<close>, with \<open>Inl\<close> for the exception.
  \<^item> Python integers are \<open>int\<close>. A finite Python float that is passed through the
    module is the \<open>real\<close> number it denotes. The one not-a-number that the module
    itself takes from finite inputs (the mean of an empty array) is kept as the value
    \<open>NaN\<close>.
  \<^item> The float arithmetic of the objective (\<open>**\<close>, \<open>*\<close> and \<open>/\<close> on binary64 numbers:
    rounding, overflow, underflow, infinities, not-a-number, complex results) is not
    modelled: the three operations are parameters, collected in the record
    \<open>number_ops\<close>.
  \<^item> The intent-slot metrics, the classification report and the frame-accuracy helper
    live in modules that are not part of this file: they are parameters of the model,
    collected in the record \<open>externals\<close>.
\<close>

subsection \<open>Python values\<close>

datatype py_error = TypeError | ZeroDivisionError | IndexError | KeyError | ValueError

text \<open>A float result that may be not-a-number.\<close>

datatype pyfloat = Float real | NaN

text \<open>\<open>range(n)\<close> for an integer \<open>n\<close>: the integers from 0 up to \<open>n - 1\<close>.\<close>

definition py_range :: "int \<Rightarrow> int list" where
  "py_range n = [0..n - 1]"

text \<open>\<open>xs[0:stop]\<close> for a list and a non-negative \<open>stop\<close>; a slice never raises.\<close>

definition slice0 :: "'a list \<Rightarrow> int \<Rightarrow> 'a list" where
  "slice0 xs stop = take (nat stop) xs"

text \<open>\<open>max(xs)\<close> raises ValueError on the empty list.\<close>

definition py_max :: "int list \<Rightarrow> py_error + int" where
  "py_max xs = (case xs of [] \<Rightarrow> Inl ValueError | y # ys \<Rightarrow> Inr (fold max ys y))"

text \<open>\<open>str(n)\<close>: the decimal digits, with a minus sign for a negative integer.\<close>

definition digit_char :: "nat \<Rightarrow> char" where
  "digit_char d = char_of (48 + d)"

function str_nat :: "nat \<Rightarrow> string" where
  "str_nat n = (if n < 10 then [digit_char n] else str_nat (n div 10) @ [digit_char (n mod 10)])"
  by pat_completeness auto
termination
  by (relation "measure id") auto

declare str_nat.simps [simp del]

definition py_str :: "int \<Rightarrow> string" where
  "py_str i = (if i < 0 then CHR ''-'' # str_nat (nat (- i)) else str_nat (nat i))"

subsection \<open>External collaborators\<close>

text \<open>
  Modelled from the spec: \<open>LabelPrediction\<close> of pytext.metrics, "a one-hot-like score
  vector, a predicted class index, and an expected class index".
\<close>

record LabelPrediction =
  label_scores :: "int list"
  predicted_label :: int
  expected_label :: int

text \<open>
  Modelled from the spec: the result record of \<open>compute_all_metrics\<close> of
  pytext.metrics.intent\_slot\_metrics, with the seven metric groups that this module
  reads from it. A group that was not computed is absent (\<open>None\<close>).
\<close>

record ('fd, 'ism) AllMetrics =
  am_top_intent_accuracy :: "real option"
  am_frame_accuracy :: "real option"
  am_frame_accuracy_top_k :: "real option"
  am_frame_accuracies_by_depth :: "'fd option"
  am_bracket_metrics :: "'ism option"
  am_tree_metrics :: "'ism option"
  am_loss :: "real option"

text \<open>
  Modelled from the spec: scikit-learn's \<open>accuracy_score\<close>, "the fraction of examples
  where effective prediction equals gold length". The two lists must have the same number
  of samples (ValueError otherwise); the mean over no samples is not-a-number.
\<close>

definition accuracy_score :: "int list \<Rightarrow> int list \<Rightarrow> py_error + pyfloat" where
  "accuracy_score y_true y_pred =
     (if length y_true \<noteq> length y_pred then Inl ValueError
      else if y_true = [] then Inr NaN
      else Inr (Float (real (length (filter (\<lambda>(t, p). t = p) (zip y_true y_pred)))
                       / real (length y_true))))"

text \<open>
  The functions of the sibling modules, as parameters: \<open>compute_all_metrics\<close> with its
  nine arguments in the order of the call, \<open>compute_frame_accuracy\<close> on an optional
  sequence of pairs, and \<open>compute_classification_metrics\<close> on the pairs, the label names
  and the loss. Each may raise.
\<close>

record ('fp, 'nd, 'fd, 'ism, 'rep) externals =
  compute_all_metrics ::
    "'fp list \<Rightarrow> bool \<Rightarrow> bool \<Rightarrow> bool \<Rightarrow> bool \<Rightarrow> bool \<Rightarrow> bool \<Rightarrow> 'nd list list option
       \<Rightarrow> real option \<Rightarrow> py_error + ('fd, 'ism) AllMetrics"
  compute_frame_accuracy :: "'fp list option \<Rightarrow> py_error + real"
  compute_classification_metrics ::
    "LabelPrediction list \<Rightarrow> string list \<Rightarrow> real \<Rightarrow> py_error + 'rep"

subsection \<open>compute\_length\_metrics\<close>

text \<open>The report is the empty dict when there are no predictions.\<close>

datatype 'rep length_report = EmptyDict | Report 'rep

type_synonym pred_agg = "int \<rightharpoonup> int list"

text \<open>\<open>for i in range(beam): all_length_pred_agg[i] = []\<close>\<close>

fun init_agg :: "int list \<Rightarrow> pred_agg \<Rightarrow> pred_agg" where
  "init_agg [] agg = agg"
| "init_agg (i # is) agg = init_agg is (agg(i \<mapsto> []))"

text \<open>\<open>all_length_pred_agg[l].append(v)\<close>: the lookup raises KeyError on a missing key.\<close>

definition agg_append :: "pred_agg \<Rightarrow> int \<Rightarrow> int \<Rightarrow> py_error + pred_agg" where
  "agg_append agg l v = (case agg l of None \<Rightarrow> Inl KeyError | Some xs \<Rightarrow> Inr (agg(l \<mapsto> xs @ [v])))"

text \<open>
  The inner loop \<open>for l in range(beam)\<close> for one example: the label when it is among the
  first \<open>l + 1\<close> predictions, and \<open>preds[0]\<close> otherwise (IndexError on an empty \<open>preds\<close>).
\<close>

fun agg_example :: "int \<Rightarrow> int list \<Rightarrow> int list \<Rightarrow> pred_agg \<Rightarrow> py_error + pred_agg" where
  "agg_example label preds [] agg = Inr agg"
| "agg_example label preds (l # ls) agg =
     (if label \<in> set (slice0 preds (l + 1)) then
        (case agg_append agg l label of
           Inl e \<Rightarrow> Inl e
         | Inr agg' \<Rightarrow> agg_example label preds ls agg')
      else
        (case agg l of
           None \<Rightarrow> Inl KeyError
         | Some _ \<Rightarrow>
            (case preds of
               [] \<Rightarrow> Inl IndexError
             | p0 # _ \<Rightarrow>
                (case agg_append agg l p0 of
                   Inl e \<Rightarrow> Inl e
                 | Inr agg' \<Rightarrow> agg_example label preds ls agg'))))"

text \<open>The outer loop \<open>for label, preds in zip(all_target_lens, all_target_length_preds)\<close>.\<close>

fun agg_loop :: "(int \<times> int list) list \<Rightarrow> int list \<Rightarrow> pred_agg \<Rightarrow> py_error + pred_agg" where
  "agg_loop [] ls agg = Inr agg"
| "agg_loop ((label, preds) # rest) ls agg =
     (case agg_example label preds ls agg of
        Inl e \<Rightarrow> Inl e
      | Inr agg' \<Rightarrow> agg_loop rest ls agg')"

text \<open>
  \<open>for i in range(beam): length_metrics[i] = accuracy_score(all_target_lens,
  all_length_pred_agg[i])\<close>
\<close>

fun metrics_loop ::
  "int list \<Rightarrow> pred_agg \<Rightarrow> int list \<Rightarrow> (int \<rightharpoonup> pyfloat) \<Rightarrow> py_error + (int \<rightharpoonup> pyfloat)" where
  "metrics_loop all_target_lens agg [] length_metrics = Inr length_metrics"
| "metrics_loop all_target_lens agg (i # is) length_metrics =
     (case agg i of
        None \<Rightarrow> Inl KeyError
      | Some col \<Rightarrow>
         (case accuracy_score all_target_lens col of
            Inl e \<Rightarrow> Inl e
          | Inr a \<Rightarrow> metrics_loop all_target_lens agg is (length_metrics(i \<mapsto> a))))"

text \<open>
  The score vector of one example:
  \<open>[1 if idx == pred else 0 for idx in range(max_len + 1)]\<close>
\<close>

definition one_hot :: "int \<Rightarrow> int \<Rightarrow> int list" where
  "one_hot max_len pred = map (\<lambda>idx. if idx = pred then 1 else 0) (py_range (max_len + 1))"

definition compute_length_metrics ::
  "('fp, 'nd, 'fd, 'ism, 'rep) externals \<Rightarrow> int list \<Rightarrow> int list list \<Rightarrow> int
     \<Rightarrow> py_error + ((int \<rightharpoonup> pyfloat) \<times> 'rep length_report)" where
  "compute_length_metrics ext all_target_lens all_target_length_preds select_length_beam =
     (case all_target_length_preds of
        [] \<Rightarrow> Inr (Map.empty, EmptyDict)
      | preds0 # _ \<Rightarrow>
         (let beam = int (length preds0) in
          case agg_loop (zip all_target_lens all_target_length_preds) (py_range beam)
                 (init_agg (py_range beam) Map.empty) of
            Inl e \<Rightarrow> Inl e
          | Inr all_length_pred_agg \<Rightarrow>
             (case metrics_loop all_target_lens all_length_pred_agg (py_range beam) Map.empty of
                Inl e \<Rightarrow> Inl e
              | Inr length_metrics \<Rightarrow>
                 (case all_length_pred_agg select_length_beam of
                    None \<Rightarrow> Inl KeyError
                  | Some selected \<Rightarrow>
                     (case py_max (all_target_lens @ selected) of
                        Inl e \<Rightarrow> Inl e
                      | Inr max_len \<Rightarrow>
                         (let all_pairs =
                                map (\<lambda>(pred, expect).
                                       \<lparr>label_scores = one_hot max_len pred,
                                        predicted_label = pred,
                                        expected_label = expect\<rparr>)
                                    (zip selected all_target_lens)
                          in case compute_classification_metrics ext all_pairs
                                    (map py_str (py_range (max_len + 1))) 0 of
                               Inl e \<Rightarrow> Inl e
                             | Inr length_report \<Rightarrow>
                                 Inr (length_metrics, Report length_report)))))))"

subsection \<open>The result records\<close>

text \<open>
  \<open>MaskedSeq2SeqJointMetrics\<close>. The boolean arguments of the functions below carry
  the names of these fields in the source; in the model the arguments are primed.
\<close>

record ('fd, 'ism, 'rep) MaskedSeq2SeqJointMetrics =
  top_intent_accuracy :: "real option"
  frame_accuracy :: "real option"
  frame_accuracy_top_k :: "real option"
  frame_accuracies_by_depth :: "'fd option"
  bracket_metrics :: "'ism option"
  tree_metrics :: "'ism option"
  loss :: "real option"
  length_metrics :: "int \<rightharpoonup> pyfloat"
  length_reports :: "'rep length_report"
  non_invalid_fa :: real
  extracted_fa :: real
  print_length_metrics :: bool

text \<open>
  \<open>NASMaskedSeq2SeqJointMetrics\<close>: the subclass sets two more attributes on the
  tuple that the base constructor returns. The objective is a Python number, of the type
  \<open>'num\<close> on which the arithmetic below works.
\<close>

record ('fd, 'ism, 'rep, 'num) NASMaskedSeq2SeqJointMetrics =
  "('fd, 'ism, 'rep) MaskedSeq2SeqJointMetrics" +
  model_num_param :: real
  norm_prod_model_param_frame_accuracy :: 'num

subsection \<open>compute\_masked\_metrics\<close>

definition compute_masked_metrics ::
  "('fp, 'nd, 'fd, 'ism, 'rep) externals \<Rightarrow> 'fp list \<Rightarrow> int list \<Rightarrow> int list list \<Rightarrow> int
     \<Rightarrow> bool \<Rightarrow> bool \<Rightarrow> bool \<Rightarrow> bool \<Rightarrow> bool \<Rightarrow> bool
     \<Rightarrow> 'nd list list option \<Rightarrow> real option \<Rightarrow> (int \<rightharpoonup> pyfloat) option
     \<Rightarrow> 'fp list option \<Rightarrow> 'fp list option \<Rightarrow> bool
     \<Rightarrow> py_error + ('fd, 'ism, 'rep) MaskedSeq2SeqJointMetrics" where
  "compute_masked_metrics ext frame_pairs all_target_lens all_target_length_preds
     select_length_beam top_intent_accuracy' frame_accuracy' frame_accuracies_by_depth'
     bracket_metrics' tree_metrics' overall_metrics all_predicted_frames calculated_loss
     length_metrics' non_invalid_frame_pairs extracted_frame_pairs print_length_metrics' =
     (case compute_all_metrics ext frame_pairs top_intent_accuracy' frame_accuracy'
             frame_accuracies_by_depth' bracket_metrics' tree_metrics' overall_metrics
             all_predicted_frames calculated_loss of
        Inl e \<Rightarrow> Inl e
      | Inr all_metrics \<Rightarrow>
         (case compute_length_metrics ext all_target_lens all_target_length_preds
                 select_length_beam of
            Inl e \<Rightarrow> Inl e
          | Inr (length_metrics'', length_reports') \<Rightarrow>
             (case compute_frame_accuracy ext non_invalid_frame_pairs of
                Inl e \<Rightarrow> Inl e
              | Inr non_invalid \<Rightarrow>
                 (case compute_frame_accuracy ext extracted_frame_pairs of
                    Inl e \<Rightarrow> Inl e
                  | Inr extracted \<Rightarrow>
                     Inr \<lparr>top_intent_accuracy = am_top_intent_accuracy all_metrics,
                          frame_accuracy = am_frame_accuracy all_metrics,
                          frame_accuracy_top_k = am_frame_accuracy_top_k all_metrics,
                          frame_accuracies_by_depth = am_frame_accuracies_by_depth all_metrics,
                          bracket_metrics = am_bracket_metrics all_metrics,
                          tree_metrics = am_tree_metrics all_metrics,
                          loss = am_loss all_metrics,
                          length_metrics = length_metrics'',
                          length_reports = length_reports',
                          non_invalid_fa = non_invalid,
                          extracted_fa = extracted,
                          print_length_metrics = print_length_metrics'\<rparr>))))"

subsection \<open>compute\_nas\_masked\_metrics\<close>

text \<open>
  The arithmetic of the objective, as parameters: \<open>x ** y\<close> on two floats, the product
  of a float and the number that a power returned, and the true division of two numbers.
  Each may raise (\<open>**\<close> on an overflow or on zero to a negative power, \<open>/\<close> on a zero
  divisor), and what each returns is whatever Python's binary64 and complex arithmetic
  returns: the model says nothing about it.
\<close>

record 'num number_ops =
  float_pow :: "real \<Rightarrow> real \<Rightarrow> py_error + 'num"
  float_mul :: "real \<Rightarrow> 'num \<Rightarrow> py_error + 'num"
  number_div :: "'num \<Rightarrow> 'num \<Rightarrow> py_error + 'num"

text \<open>
  The objective, in the order in which Python evaluates it: the power in the numerator,
  the product with the frame accuracy (TypeError when that is \<open>None\<close>), the power in the
  denominator, its product with the reference accuracy, the division.
\<close>

definition nas_objective ::
  "'num number_ops \<Rightarrow> real option \<Rightarrow> real \<Rightarrow> real \<Rightarrow> real \<Rightarrow> real \<Rightarrow> py_error + 'num" where
  "nas_objective ops frame_accuracy' model_num_param' ref_model_num_param ref_frame_accuracy
     param_importance =
     (case float_pow ops ref_model_num_param param_importance of
        Inl e \<Rightarrow> Inl e
      | Inr ref_pow \<Rightarrow>
         (case frame_accuracy' of
            None \<Rightarrow> Inl TypeError
          | Some fa \<Rightarrow>
             (case float_mul ops fa ref_pow of
                Inl e \<Rightarrow> Inl e
              | Inr numerator \<Rightarrow>
                 (case float_pow ops model_num_param' param_importance of
                    Inl e \<Rightarrow> Inl e
                  | Inr model_pow \<Rightarrow>
                     (case float_mul ops ref_frame_accuracy model_pow of
                        Inl e \<Rightarrow> Inl e
                      | Inr denominator \<Rightarrow> number_div ops numerator denominator)))))"

text \<open>
  The arguments \<open>top_intent_accuracy\<close>, \<open>frame_accuracy\<close>, \<open>frame_accuracies_by_depth\<close>,
  \<open>bracket_metrics\<close>, \<open>tree_metrics\<close>, \<open>overall_metrics\<close> and \<open>length_metrics\<close> are
  accepted and not passed on: the inner call leaves the five toggles and
  \<open>print_length_metrics\<close> at their default \<open>True\<close>, \<open>length_metrics\<close> at \<open>None\<close>, and sets
  \<open>overall_metrics=True\<close>.
\<close>

definition compute_nas_masked_metrics ::
  "'num number_ops \<Rightarrow> ('fp, 'nd, 'fd, 'ism, 'rep) externals
     \<Rightarrow> 'fp list \<Rightarrow> int list \<Rightarrow> int list list \<Rightarrow> int
     \<Rightarrow> bool \<Rightarrow> bool \<Rightarrow> bool \<Rightarrow> bool \<Rightarrow> bool \<Rightarrow> bool
     \<Rightarrow> 'nd list list option \<Rightarrow> real option \<Rightarrow> (int \<rightharpoonup> pyfloat) option
     \<Rightarrow> 'fp list option \<Rightarrow> 'fp list option
     \<Rightarrow> real \<Rightarrow> real \<Rightarrow> real \<Rightarrow> real
     \<Rightarrow> py_error + ('fd, 'ism, 'rep, 'num) NASMaskedSeq2SeqJointMetrics" where
  "compute_nas_masked_metrics ops ext frame_pairs all_target_lens all_target_length_preds
     select_length_beam top_intent_accuracy' frame_accuracy' frame_accuracies_by_depth'
     bracket_metrics' tree_metrics' overall_metrics all_predicted_frames calculated_loss
     length_metrics' non_invalid_frame_pairs extracted_frame_pairs
     model_num_param' ref_model_num_param ref_frame_accuracy param_importance =
     (case compute_masked_metrics ext frame_pairs all_target_lens all_target_length_preds
             select_length_beam True True True True True True all_predicted_frames
             calculated_loss None non_invalid_frame_pairs extracted_frame_pairs True of
        Inl e \<Rightarrow> Inl e
      | Inr masked_seq2seq_joint_metrics \<Rightarrow>
         (case nas_objective ops (frame_accuracy masked_seq2seq_joint_metrics) model_num_param'
                 ref_model_num_param ref_frame_accuracy param_importance of
            Inl e \<Rightarrow> Inl e
          | Inr objective \<Rightarrow>
             Inr \<lparr>top_intent_accuracy = top_intent_accuracy masked_seq2seq_joint_metrics,
                  frame_accuracy = frame_accuracy masked_seq2seq_joint_metrics,
                  frame_accuracy_top_k = frame_accuracy_top_k masked_seq2seq_joint_metrics,
                  frame_accuracies_by_depth =
                    frame_accuracies_by_depth masked_seq2seq_joint_metrics,
                  bracket_metrics = bracket_metrics masked_seq2seq_joint_metrics,
                  tree_metrics = tree_metrics masked_seq2seq_joint_metrics,
                  loss = loss masked_seq2seq_joint_metrics,
                  length_metrics = length_metrics masked_seq2seq_joint_metrics,
                  length_reports = length_reports masked_seq2seq_joint_metrics,
                  non_invalid_fa = non_invalid_fa masked_seq2seq_joint_metrics,
                  extracted_fa = extracted_fa masked_seq2seq_joint_metrics,
                  print_length_metrics = True,
                  model_num_param = model_num_param',
                  norm_prod_model_param_frame_accuracy = objective\<rparr>))"

subsection \<open>An instance of the external collaborators\<close>

text \<open>
  Modelled from the spec: the sibling functions that are not in this module, for the
  concrete evaluations below. A frame-prediction pair is a pair of frames; the frame
  accuracy is the fraction of pairs whose two frames are equal, and 0 for no pairs. A
  frame has no structure here, so its top intent is the frame itself and the top-intent
  accuracy is the frame accuracy; no list of predicted frames is scored, so the top-k
  accuracy is 0; the per-depth, bracket and tree metrics carry no data. "Any group whose
  toggle is false yields an absent (not zero) value"; the optional loss is passed through;
  the helper is "tolerant of an absent pairs argument by returning 0"; the classification
  routine is kept symbolic and returns the three inputs it was given.
\<close>

definition frame_accuracy_of :: "('f \<times> 'f) list \<Rightarrow> real" where
  "frame_accuracy_of pairs =
     (if pairs = [] then 0
      else real (length (filter (\<lambda>(predicted, expected). predicted = expected) pairs))
           / real (length pairs))"

definition spec_externals ::
  "('f \<times> 'f, 'nd, unit, unit, LabelPrediction list \<times> string list \<times> real) externals" where
  "spec_externals =
     \<lparr>compute_all_metrics =
        (\<lambda>frame_pairs top_intent_accuracy' frame_accuracy' frame_accuracies_by_depth'
            bracket_metrics' tree_metrics' overall_metrics all_predicted_frames
            calculated_loss.
           Inr \<lparr>am_top_intent_accuracy =
                  (if top_intent_accuracy' then Some (frame_accuracy_of frame_pairs) else None),
                am_frame_accuracy =
                  (if frame_accuracy' then Some (frame_accuracy_of frame_pairs) else None),
                am_frame_accuracy_top_k = Some 0,
                am_frame_accuracies_by_depth =
                  (if frame_accuracies_by_depth' then Some () else None),
                am_bracket_metrics = (if bracket_metrics' then Some () else None),
                am_tree_metrics = (if tree_metrics' then Some () else None),
                am_loss = calculated_loss\<rparr>),
      compute_frame_accuracy =
        (\<lambda>pairs. case pairs of None \<Rightarrow> Inr 0 | Some ps \<Rightarrow> Inr (frame_accuracy_of ps)),
      compute_classification_metrics = (\<lambda>pairs names loss'. Inr (pairs, names, loss'))\<rparr>"

text \<open>
  Modelled from the spec: the same collaborators with an intent-slot routine that computes
  no metric group at all, whatever the toggles: the case "the underlying computation was
  skipped or returned nothing".
\<close>

definition no_frame_accuracy_externals ::
  "(int \<times> int, unit, unit, unit, LabelPrediction list \<times> string list \<times> real) externals" where
  "no_frame_accuracy_externals =
     spec_externals\<lparr>compute_all_metrics :=
       (\<lambda>frame_pairs top_intent_accuracy' frame_accuracy' frame_accuracies_by_depth'
           bracket_metrics' tree_metrics' overall_metrics all_predicted_frames
           calculated_loss.
          Inr \<lparr>am_top_intent_accuracy = None, am_frame_accuracy = None,
               am_frame_accuracy_top_k = None, am_frame_accuracies_by_depth = None,
               am_bracket_metrics = None, am_tree_metrics = None,
               am_loss = calculated_loss\<rparr>)\<rparr>"

text \<open>
  An instance of the arithmetic for the concrete evaluations below, kept symbolic: each
  operation returns the expression it was asked to evaluate, so that an evaluation shows
  which operations the code applies to which operands. It raises nothing; the evaluations
  below use the operand 1 only, where Python raises nothing either.
\<close>

datatype objective_expr =
  Pow real real | Mul real objective_expr | Div objective_expr objective_expr

definition symbolic_ops :: "objective_expr number_ops" where
  "symbolic_ops =
     \<lparr>float_pow = (\<lambda>x y. Inr (Pow x y)),
      float_mul = (\<lambda>a n. Inr (Mul a n)),
      number_div = (\<lambda>n d. Inr (Div n d))\<rparr>"

subsection \<open>What the loops compute\<close>

text \<open>
  Closed forms of the loops of \<open>compute_length_metrics\<close>, read off the source and proved
  equal to it below: the value appended for one example at width \<open>l\<close>, the list
  \<open>all_length_pred_agg[k]\<close> after the outer loop, the value of \<open>accuracy_score\<close> on lists
  of equal length, and the list \<open>all_pairs\<close>.
\<close>

definition effective :: "int \<Rightarrow> int list \<Rightarrow> int \<Rightarrow> int" where
  "effective label preds l = (if label \<in> set (slice0 preds (l + 1)) then label else hd preds)"

definition column :: "int list \<Rightarrow> int list list \<Rightarrow> int \<Rightarrow> int list" where
  "column L P k = map (\<lambda>(label, preds). effective label preds k) (zip L P)"

definition accuracy_value :: "int list \<Rightarrow> int list \<Rightarrow> pyfloat" where
  "accuracy_value y_true y_pred =
     (if y_true = [] then NaN
      else Float (real (length (filter (\<lambda>(t, p). t = p) (zip y_true y_pred)))
                  / real (length y_true)))"

definition length_pairs :: "int list \<Rightarrow> int list \<Rightarrow> int \<Rightarrow> LabelPrediction list" where
  "length_pairs L sel max_len =
     map (\<lambda>(pred, expect). \<lparr>label_scores = one_hot max_len pred, predicted_label = pred,
                              expected_label = expect\<rparr>) (zip sel L)"

subsection \<open>The contract of the length metrics, in the words of the specification\<close>

text \<open>
  The effective prediction for example \<open>i\<close> at width \<open>k\<close> is the gold length \<open>L[i]\<close> if it
  appears within \<open>P[i][0..k]\<close> (inclusive), and \<open>P[i][0]\<close> otherwise.
\<close>

definition effective_prediction :: "int list \<Rightarrow> int list list \<Rightarrow> nat \<Rightarrow> nat \<Rightarrow> int" where
  "effective_prediction L P i k =
     (if L ! i \<in> set (take (Suc k) (P ! i)) then L ! i else P ! i ! 0)"

definition effective_predictions :: "int list \<Rightarrow> int list list \<Rightarrow> nat \<Rightarrow> int list" where
  "effective_predictions L P k = map (\<lambda>i. effective_prediction L P i k) [0..<length L]"

text \<open>
  The report is built over the integer range from 0 to the maximum of the gold lengths and
  the effective predictions: a vector with a 1 at the predicted length and 0 elsewhere,
  and the stringified integers of the range as label names.
\<close>

definition report_max_len :: "int list \<Rightarrow> int list list \<Rightarrow> nat \<Rightarrow> int" where
  "report_max_len L P k = Max (set L \<union> set (effective_predictions L P k))"

definition one_hot_vector :: "nat \<Rightarrow> int \<Rightarrow> int list" where
  "one_hot_vector n c = map (\<lambda>j. if int j = c then 1 else 0) [0..<n]"

definition label_names :: "nat \<Rightarrow> string list" where
  "label_names n = map (\<lambda>j. py_str (int j)) [0..<n]"

section \<open>Properties\<close>

text \<open>
  C3. Whatever the gold lengths and the selected beam index, an empty sequence of
  predicted-length lists gives the empty length-metrics mapping and the empty report,
  and nothing is raised.
\<close>

theorem compute_length_metrics_empty:
  "compute_length_metrics ext all_target_lens [] select_length_beam = Inr (Map.empty, EmptyDict)"
  by (simp add: compute_length_metrics_def)

subsection \<open>The loops of compute\_length\_metrics\<close>

lemma set_py_range: "set (py_range n) = {k. 0 \<le> k \<and> k < n}"
  by (auto simp: py_range_def)

lemma distinct_py_range: "distinct (py_range n)"
  by (simp add: py_range_def)

lemma py_range_empty_iff: "py_range n = [] \<longleftrightarrow> n \<le> 0"
  by (auto simp: py_range_def)

lemma init_agg_apply: "init_agg ls agg k = (if k \<in> set ls then Some [] else agg k)"
  by (induction ls arbitrary: agg) auto

lemma agg_example_nonempty:
  assumes "preds \<noteq> []" "distinct ls" "\<forall>l\<in>set ls. agg l \<noteq> None"
  shows "agg_example label preds ls agg
           = Inr (\<lambda>k. if k \<in> set ls then Some (the (agg k) @ [effective label preds k]) else agg k)"
  using assms
proof (induction ls arbitrary: agg)
  case Nil
  then show ?case by simp
next
  case (Cons l ls)
  from Cons.prems obtain xs where xs: "agg l = Some xs" by auto
  from Cons.prems(1) obtain p0 ps where p: "preds = p0 # ps" by (cases preds) auto
  let ?agg' = "agg(l \<mapsto> xs @ [effective label preds l])"
  have step: "agg_example label preds (l # ls) agg = agg_example label preds ls ?agg'"
    using xs p by (simp add: agg_append_def effective_def)
  have "\<forall>l'\<in>set ls. ?agg' l' \<noteq> None" using Cons.prems by auto
  moreover have d: "distinct ls" using Cons.prems(2) by simp
  ultimately have "agg_example label preds ls ?agg'
          = Inr (\<lambda>k. if k \<in> set ls then Some (the (?agg' k) @ [effective label preds k]) else ?agg' k)"
    by (rule Cons.IH[OF Cons.prems(1), rotated])
  also have "(\<lambda>k. if k \<in> set ls then Some (the (?agg' k) @ [effective label preds k]) else ?agg' k)
      = (\<lambda>k. if k \<in> set (l # ls) then Some (the (agg k) @ [effective label preds k]) else agg k)"
    using Cons.prems(2) xs by (auto simp: fun_eq_iff)
  finally have fin: "agg_example label preds ls ?agg'
      = Inr (\<lambda>k. if k \<in> set (l # ls) then Some (the (agg k) @ [effective label preds k]) else agg k)" .
  show ?case unfolding step fin by (rule refl)
qed

lemma agg_example_empty_preds:
  assumes "ls \<noteq> []" "\<forall>l\<in>set ls. agg l \<noteq> None"
  shows "agg_example label [] ls agg = Inl IndexError"
proof -
  obtain l ls' where ls: "ls = l # ls'" using assms(1) by (cases ls) auto
  then obtain xs where "agg l = Some xs" using assms(2) by auto
  then show ?thesis using ls by (simp add: slice0_def)
qed

lemma agg_loop_eq:
  assumes "ls \<noteq> []" "distinct ls" "\<forall>l\<in>set ls. agg l \<noteq> None"
  shows "agg_loop zs ls agg
           = (if \<exists>z\<in>set zs. snd z = [] then Inl IndexError
              else Inr (\<lambda>k. if k \<in> set ls
                             then Some (the (agg k) @ map (\<lambda>(label, preds). effective label preds k) zs)
                             else agg k))"
  using assms(3)
proof (induction zs arbitrary: agg)
  case Nil
  then show ?case by (auto simp: fun_eq_iff)
next
  case (Cons z zs)
  obtain label preds where z: "z = (label, preds)" by (cases z)
  show ?case
  proof (cases "preds = []")
    case True
    then show ?thesis using z agg_example_empty_preds[OF assms(1) Cons.prems] by simp
  next
    case False
    let ?agg' = "\<lambda>k. if k \<in> set ls then Some (the (agg k) @ [effective label preds k]) else agg k"
    have ex: "agg_example label preds ls agg = Inr ?agg'"
      by (rule agg_example_nonempty[OF False assms(2) Cons.prems])
    have dom: "\<forall>l\<in>set ls. ?agg' l \<noteq> None" by simp
    have step: "agg_loop (z # zs) ls agg = agg_loop zs ls ?agg'" using z ex by simp
    have eq: "(\<lambda>k. if k \<in> set ls
                 then Some (the (?agg' k) @ map (\<lambda>(label, preds). effective label preds k) zs)
                 else ?agg' k)
            = (\<lambda>k. if k \<in> set ls
                 then Some (the (agg k) @ map (\<lambda>(label, preds). effective label preds k) (z # zs))
                 else agg k)"
      using z by (auto simp: fun_eq_iff)
    show ?thesis unfolding step Cons.IH[OF dom] eq using False z by simp
  qed
qed

lemma metrics_loop_eq:
  assumes "\<forall>i\<in>set is. agg i = Some (col i) \<and> length (col i) = n"
  shows "metrics_loop L agg is lm
           = (if is \<noteq> [] \<and> length L \<noteq> n then Inl ValueError
              else Inr (\<lambda>k. if k \<in> set is then Some (accuracy_value L (col k)) else lm k))"
  using assms
proof (induction "is" arbitrary: lm)
  case Nil
  then show ?case by simp
next
  case (Cons i "is")
  show ?case
  proof (cases "length L = n")
    case False
    then show ?thesis using Cons.prems by (simp add: accuracy_score_def)
  next
    case True
    have acc: "accuracy_score L (col i) = Inr (accuracy_value L (col i))"
      using True Cons.prems by (simp add: accuracy_score_def accuracy_value_def)
    have step: "metrics_loop L agg (i # is) lm
                  = metrics_loop L agg is (lm(i \<mapsto> accuracy_value L (col i)))"
      using Cons.prems acc by simp
    have rest: "\<forall>i\<in>set is. agg i = Some (col i) \<and> length (col i) = n"
      using Cons.prems by simp
    have ih: "metrics_loop L agg is (lm(i \<mapsto> accuracy_value L (col i)))
                = (if is \<noteq> [] \<and> length L \<noteq> n then Inl ValueError
                   else Inr (\<lambda>k. if k \<in> set is then Some (accuracy_value L (col k))
                            else (lm(i \<mapsto> accuracy_value L (col i))) k))"
      by (rule Cons.IH[OF rest])
    have eq: "(\<lambda>k. if k \<in> set is then Some (accuracy_value L (col k))
                            else (lm(i \<mapsto> accuracy_value L (col i))) k)
            = (\<lambda>k. if k \<in> set (i # is) then Some (accuracy_value L (col k)) else lm k)"
      by (auto simp: fun_eq_iff)
    show ?thesis unfolding step ih eq using True by simp
  qed
qed

lemma py_max_Cons: "py_max (x # ys) = Inr (Max (set (x # ys)))"
  unfolding py_max_def Max.set_eq_fold by simp

lemma agg_loop_no_beam: "agg_loop zs [] agg = Inr agg"
  by (induction zs "[] :: int list" agg rule: agg_loop.induct) simp_all

lemma length_column: "length (column L P k) = min (length L) (length P)"
  by (simp add: column_def)

lemma compute_length_metrics_unfold:
  assumes "P \<noteq> []"
  shows "compute_length_metrics ext L P b =
     (case agg_loop (zip L P) (py_range (int (length (hd P))))
             (init_agg (py_range (int (length (hd P)))) Map.empty) of
        Inl e \<Rightarrow> Inl e
      | Inr agg \<Rightarrow>
         (case metrics_loop L agg (py_range (int (length (hd P)))) Map.empty of
            Inl e \<Rightarrow> Inl e
          | Inr lm \<Rightarrow>
             (case agg b of
                None \<Rightarrow> Inl KeyError
              | Some selected \<Rightarrow>
                 (case py_max (L @ selected) of
                    Inl e \<Rightarrow> Inl e
                  | Inr max_len \<Rightarrow>
                     (case compute_classification_metrics ext (length_pairs L selected max_len)
                             (map py_str (py_range (max_len + 1))) 0 of
                        Inl e \<Rightarrow> Inl e
                      | Inr rep \<Rightarrow> Inr (lm, Report rep))))))"
proof -
  obtain p0 ps where P: "P = p0 # ps" using assms by (cases P) auto
  show ?thesis unfolding P
    by (simp add: compute_length_metrics_def Let_def length_pairs_def
          cong: sum.case_cong option.case_cong)
qed

lemma compute_length_metrics_eq:
  assumes "P \<noteq> []"
  shows "compute_length_metrics ext L P b =
    (if hd P = [] then Inl KeyError
     else if \<exists>z\<in>set (zip L P). snd z = [] then Inl IndexError
     else if length P < length L then Inl ValueError
     else if \<not> (0 \<le> b \<and> b < int (length (hd P))) then Inl KeyError
     else if L = [] then Inl ValueError
     else (case compute_classification_metrics ext
                 (length_pairs L (column L P b) (Max (set (L @ column L P b))))
                 (map py_str (py_range (Max (set (L @ column L P b)) + 1))) 0 of
             Inl e \<Rightarrow> Inl e
           | Inr rep \<Rightarrow>
               Inr (\<lambda>k. if 0 \<le> k \<and> k < int (length (hd P))
                          then Some (accuracy_value L (column L P k)) else None,
                    Report rep)))"
proof -
  let ?K = "int (length (hd P))"
  let ?ls = "py_range ?K"
  let ?zs = "zip L P"
  note unfold = compute_length_metrics_unfold[OF assms]
  show ?thesis
  proof (cases "hd P = []")
    case True
    then have "?ls = []" by (simp add: py_range_def)
    then show ?thesis using True unfolding unfold
      by (simp add: agg_loop_no_beam)
  next
    case False
    then have ne: "?ls \<noteq> []" by (simp add: py_range_empty_iff)
    have dom: "\<forall>l\<in>set ?ls. init_agg ?ls Map.empty l \<noteq> None"
      by (simp add: init_agg_apply)
    let ?agg = "\<lambda>k. if k \<in> set ?ls then Some (column L P k) else None"
    have agg: "agg_loop ?zs ?ls (init_agg ?ls Map.empty)
                 = (if \<exists>z\<in>set ?zs. snd z = [] then Inl IndexError else Inr ?agg)"
      unfolding agg_loop_eq[OF ne distinct_py_range dom]
      by (auto simp: init_agg_apply column_def fun_eq_iff)
    show ?thesis
    proof (cases "\<exists>z\<in>set ?zs. snd z = []")
      case True
      then show ?thesis using False unfolding unfold agg by simp
    next
      case nz: False
      have cols: "\<forall>i\<in>set ?ls. ?agg i = Some (column L P i)
                     \<and> length (column L P i) = min (length L) (length P)"
        by (simp add: length_column)
      have ml: "metrics_loop L ?agg ?ls Map.empty
                  = (if length L \<noteq> min (length L) (length P) then Inl ValueError
                     else Inr (\<lambda>k. if k \<in> set ?ls then Some (accuracy_value L (column L P k))
                                   else None))"
        unfolding metrics_loop_eq[of ?ls ?agg "column L P" "min (length L) (length P)", OF cols]
        using ne by simp
      show ?thesis
      proof (cases "length P < length L")
        case True
        then show ?thesis using False nz unfolding unfold agg by (simp add: ml)
      next
        case le: False
        then have ml': "metrics_loop L ?agg ?ls Map.empty
                  = Inr (\<lambda>k. if 0 \<le> k \<and> k < ?K then Some (accuracy_value L (column L P k))
                                   else None)"
          using ml by (simp add: set_py_range)
        show ?thesis
        proof (cases "0 \<le> b \<and> b < ?K")
          case False
          then have "?agg b = None" by (simp add: set_py_range)
          then show ?thesis using \<open>hd P \<noteq> []\<close> nz le False unfolding unfold agg
            by (simp add: ml')
        next
          case b: True
          then have sel: "?agg b = Some (column L P b)" by (simp add: set_py_range)
          have lhs: "compute_length_metrics ext L P b =
              (case py_max (L @ column L P b) of
                 Inl e \<Rightarrow> Inl e
               | Inr max_len \<Rightarrow>
                  (case compute_classification_metrics ext
                          (length_pairs L (column L P b) max_len)
                          (map py_str (py_range (max_len + 1))) 0 of
                     Inl e \<Rightarrow> Inl e
                   | Inr rep \<Rightarrow>
                       Inr (\<lambda>k. if 0 \<le> k \<and> k < ?K
                                  then Some (accuracy_value L (column L P k)) else None,
                            Report rep)))"
            using nz sel unfolding unfold agg by (simp add: ml')
          show ?thesis
          proof (cases "L = []")
            case True
            then have "py_max (L @ column L P b) = Inl ValueError"
              by (simp add: py_max_def column_def)
            then show ?thesis using \<open>hd P \<noteq> []\<close> nz le b True unfolding lhs
              by simp
          next
            case Lne: False
            have mx: "py_max (L @ column L P b) = Inr (Max (set (L @ column L P b)))"
            proof -
              obtain x xs where "L = x # xs" using Lne by (cases L) auto
              then have "L @ column L P b = x # (xs @ column L P b)" by simp
              then show ?thesis by (simp only: py_max_Cons)
            qed
            show ?thesis using \<open>hd P \<noteq> []\<close> nz le b Lne unfolding lhs mx
              by simp
          qed
        qed
      qed
    qed
  qed
qed

lemma py_range_conv: "py_range n = map int [0..<nat n]"
  by (auto simp: py_range_def list_eq_iff_nth_eq)

lemma column_effective_predictions:
  assumes "length L \<le> length P" "\<forall>z\<in>set (zip L P). snd z \<noteq> []"
  shows "column L P (int k) = effective_predictions L P k"
proof (rule nth_equalityI)
  show "length (column L P (int k)) = length (effective_predictions L P k)"
    using assms(1) by (simp add: column_def effective_predictions_def)
next
  fix i assume "i < length (column L P (int k))"
  then have i: "i < length L" "i < length P" by (simp_all add: column_def)
  then have "(L ! i, P ! i) \<in> set (zip L P)"
    by (metis length_zip min_less_iff_conj nth_mem nth_zip)
  then have ne: "P ! i \<noteq> []" using assms(2) by auto
  have "nat (int k + 1) = Suc k" by simp
  then show "column L P (int k) ! i = effective_predictions L P k ! i"
    using i ne
    by (simp add: column_def effective_predictions_def effective_def effective_prediction_def
          slice0_def hd_conv_nth)
qed

lemma accuracy_value_card:
  assumes "L \<noteq> []" "length col = length L"
  shows "accuracy_value L col
           = Float (real (card {i. i < length L \<and> col ! i = L ! i}) / real (length L))"
proof -
  have "{i. i < length (zip L col) \<and> (case zip L col ! i of (t, p) \<Rightarrow> t = p)}
          = {i. i < length L \<and> col ! i = L ! i}"
    using assms(2) by auto
  then show ?thesis using assms(1)
    by (simp add: accuracy_value_def length_filter_conv_card)
qed

lemma compute_length_metrics_returns:
  assumes "compute_length_metrics ext L P b = Inr (lm, rep)" "P \<noteq> []"
  shows "hd P \<noteq> []" and "\<forall>z\<in>set (zip L P). snd z \<noteq> []" and "length L \<le> length P"
    and "0 \<le> b" and "b < int (length (hd P))" and "L \<noteq> []"
    and "lm = (\<lambda>k. if 0 \<le> k \<and> k < int (length (hd P))
                    then Some (accuracy_value L (column L P k)) else None)"
    and "\<exists>r. rep = Report r
           \<and> compute_classification_metrics ext
                (length_pairs L (column L P b) (Max (set (L @ column L P b))))
                (map py_str (py_range (Max (set (L @ column L P b)) + 1))) 0 = Inr r"
  using assms(1) unfolding compute_length_metrics_eq[OF assms(2)]
  by (auto split: if_splits sum.splits)

lemma length_metrics_value:
  assumes "compute_length_metrics ext L P b = Inr (lm, rep)" "P \<noteq> []" "k < length (hd P)"
  shows "lm (int k) = Some (Float (real (card {i. i < length L \<and> effective_prediction L P i k = L ! i})
                                   / real (length L)))"
proof -
  note r = compute_length_metrics_returns[OF assms(1,2)]
  have col: "column L P (int k) = effective_predictions L P k"
    by (rule column_effective_predictions[OF r(3) r(2)])
  have len: "length (effective_predictions L P k) = length L"
    by (simp add: effective_predictions_def)
  have "lm (int k) = Some (accuracy_value L (effective_predictions L P k))"
    using r(7) assms(3) col by simp
  also have "accuracy_value L (effective_predictions L P k)
      = Float (real (card {i. i < length L \<and> effective_predictions L P k ! i = L ! i})
               / real (length L))"
    by (rule accuracy_value_card[OF r(6) len])
  also have "{i. i < length L \<and> effective_predictions L P k ! i = L ! i}
      = {i. i < length L \<and> effective_prediction L P i k = L ! i}"
    by (auto simp: effective_predictions_def)
  finally show ?thesis .
qed

lemma effective_prediction_mono:
  assumes "k \<le> k'" "effective_prediction L P i k = L ! i"
  shows "effective_prediction L P i k' = L ! i"
proof -
  have "set (take (Suc k) (P ! i)) \<subseteq> set (take (Suc k') (P ! i))"
    using assms(1) by (simp add: set_take_subset_set_take)
  then show ?thesis using assms(2)
    by (auto simp: effective_prediction_def split: if_splits)
qed

lemma correct_count_mono:
  assumes "k \<le> k'"
  shows "card {i. i < length L \<and> effective_prediction L P i k = L ! i}
           \<le> card {i. i < length L \<and> effective_prediction L P i k' = L ! i}"
  by (rule card_mono) (auto intro: effective_prediction_mono[OF assms])

lemma common_beam_width:
  assumes "P \<noteq> []" "\<forall>p\<in>set P. length p = K"
  shows "length (hd P) = K"
  using assms by (cases P) auto

text \<open>
  C4. For a non-empty list of predictions that all have \<open>K\<close> entries and as many gold
  lengths, the metric at each width \<open>k < K\<close> is the fraction of examples whose effective
  prediction equals the gold length; if every gold length is the first prediction, the
  metric at width 0 is 1.
\<close>
theorem length_metrics_accuracy:
  assumes "compute_length_metrics ext L P b = Inr (lm, rep)" and "P \<noteq> []"
    and "\<forall>p\<in>set P. length p = K" and "length L = length P"
  shows "(\<forall>k<K. lm (int k)
            = Some (Float (real (card {i. i < length L \<and> effective_prediction L P i k = L ! i})
                           / real (length L))))
       \<and> ((\<forall>i<length L. L ! i = P ! i ! 0) \<longrightarrow> lm 0 = Some (Float 1))"
proof (intro conjI allI impI)
  have K: "length (hd P) = K" by (rule common_beam_width[OF assms(2,3)])
  fix k assume "k < K"
  then show "lm (int k)
            = Some (Float (real (card {i. i < length L \<and> effective_prediction L P i k = L ! i})
                           / real (length L)))"
    using length_metrics_value[OF assms(1,2)] K by simp
next
  assume first: "\<forall>i<length L. L ! i = P ! i ! 0"
  note r = compute_length_metrics_returns[OF assms(1,2)]
  have "0 < length (hd P)" using r(1) by simp
  from length_metrics_value[OF assms(1,2) this]
  have "lm 0 = Some (Float (real (card {i. i < length L \<and> effective_prediction L P i 0 = L ! i})
                           / real (length L)))"
    by simp
  moreover have "{i. i < length L \<and> effective_prediction L P i 0 = L ! i} = {i. i < length L}"
    using first by (auto simp: effective_prediction_def)
  moreover have "length L \<noteq> 0" using r(6) by simp
  ultimately show "lm 0 = Some (Float 1)" by simp
qed

text \<open>
  C2. Under the same conditions the metrics do not decrease with the beam width: the metric
  at width \<open>K - 1\<close> is at least the metric at every \<open>k < K\<close>, and more generally the metric
  at \<open>k'\<close> is at least the metric at \<open>k\<close> whenever \<open>k \<le> k' < K\<close>.
\<close>
theorem length_metrics_monotone:
  assumes "compute_length_metrics ext L P b = Inr (lm, rep)" and "P \<noteq> []"
    and "\<forall>p\<in>set P. length p = K" and "length L = length P"
  shows "(\<forall>k<K. \<exists>x y. lm (int K - 1) = Some (Float x) \<and> lm (int k) = Some (Float y) \<and> y \<le> x)
       \<and> (\<forall>k k'. k \<le> k' \<and> k' < K
            \<longrightarrow> (\<exists>x y. lm (int k') = Some (Float x) \<and> lm (int k) = Some (Float y) \<and> y \<le> x))"
proof -
  have K: "length (hd P) = K" by (rule common_beam_width[OF assms(2,3)])
  have mono: "\<exists>x y. lm (int k') = Some (Float x) \<and> lm (int k) = Some (Float y) \<and> y \<le> x"
    if "k \<le> k'" "k' < K" for k k'
  proof -
    let ?c = "\<lambda>k. card {i. i < length L \<and> effective_prediction L P i k = L ! i}"
    have a: "lm (int k') = Some (Float (real (?c k') / real (length L)))"
      using length_metrics_value[OF assms(1,2), of k'] K that by simp
    have b: "lm (int k) = Some (Float (real (?c k) / real (length L)))"
      using length_metrics_value[OF assms(1,2), of k] K that by simp
    have "real (?c k) / real (length L) \<le> real (?c k') / real (length L)"
      using correct_count_mono[OF that(1), of L P] by (simp add: divide_right_mono)
    then show ?thesis using a b by blast
  qed
  have "\<exists>x y. lm (int K - 1) = Some (Float x) \<and> lm (int k) = Some (Float y) \<and> y \<le> x"
    if "k < K" for k
  proof -
    have "int (K - 1) = int K - 1" using that by simp
    then show ?thesis using mono[of k "K - 1"] that by simp
  qed
  then show ?thesis using mono by blast
qed

text \<open>
  C9. Whenever \<open>compute_length_metrics\<close> returns on a non-empty list of predictions, the
  selected beam index is a valid width and the report is what the classification routine
  returns on: one pair per example, with the one-hot vector of the effective prediction
  over the range from 0 to the maximum of the gold lengths and the effective predictions;
  the stringified integers of that range as label names; and the loss 0.
\<close>
theorem length_report_delegation:
  assumes "compute_length_metrics ext L P b = Inr (lm, rep)" and "P \<noteq> []"
  shows "0 \<le> b \<and> nat b < length (hd P)
       \<and> (\<exists>r. rep = Report r
           \<and> compute_classification_metrics ext
                (map (\<lambda>i. \<lparr>label_scores =
                              one_hot_vector (nat (report_max_len L P (nat b) + 1))
                                (effective_prediction L P i (nat b)),
                            predicted_label = effective_prediction L P i (nat b),
                            expected_label = L ! i\<rparr>) [0..<length L])
                (label_names (nat (report_max_len L P (nat b) + 1))) 0 = Inr r)"
proof -
  note r = compute_length_metrics_returns[OF assms]
  have col: "column L P b = effective_predictions L P (nat b)"
    using column_effective_predictions[OF r(3) r(2), of "nat b"] r(4) by simp
  have mx: "Max (set (L @ effective_predictions L P (nat b))) = report_max_len L P (nat b)"
    by (simp add: report_max_len_def)
  have names: "map py_str (py_range (report_max_len L P (nat b) + 1))
                 = label_names (nat (report_max_len L P (nat b) + 1))"
    by (simp add: py_range_conv label_names_def comp_def)
  have pairs: "length_pairs L (effective_predictions L P (nat b)) (report_max_len L P (nat b))
      = map (\<lambda>i. \<lparr>label_scores =
                              one_hot_vector (nat (report_max_len L P (nat b) + 1))
                                (effective_prediction L P i (nat b)),
                            predicted_label = effective_prediction L P i (nat b),
                            expected_label = L ! i\<rparr>) [0..<length L]"
    by (rule nth_equalityI)
       (simp_all add: length_pairs_def effective_predictions_def one_hot_def one_hot_vector_def
          py_range_conv comp_def)
  obtain r' where rep: "rep = Report r'"
    and c: "compute_classification_metrics ext
              (length_pairs L (column L P b) (Max (set (L @ column L P b))))
              (map py_str (py_range (Max (set (L @ column L P b)) + 1))) 0 = Inr r'"
    using r(8) by blast
  note c' = c[unfolded col mx names pairs]
  have "nat b < length (hd P)" using r(4,5) by simp
  then show ?thesis using r(4) rep c' by blast
qed

lemma beam_keys_two: "(0 \<le> k \<and> k < (2::int)) = (k = 0 \<or> k = 1)"
  by auto

lemma length_metrics_example:
  "compute_length_metrics
     (spec_externals :: (int \<times> int, unit, unit, unit,
                         LabelPrediction list \<times> string list \<times> real) externals)
     [2, 3] [[2, 1], [1, 3]] 1
   = Inr ([0 \<mapsto> Float (1 / 2), 1 \<mapsto> Float 1],
          Report ([\<lparr>label_scores = [0, 0, 1, 0], predicted_label = 2, expected_label = 2\<rparr>,
                   \<lparr>label_scores = [0, 0, 0, 1], predicted_label = 3, expected_label = 3\<rparr>],
                  [''0'', ''1'', ''2'', ''3''], 0))"
proof -
  have c0: "column [2, 3] [[2, 1], [1, 3]] 0 = [2, 1]"
    by (simp add: column_def effective_def slice0_def)
  have c1: "column [2, 3] [[2, 1], [1, 3]] 1 = [2, 3]"
    by (simp add: column_def effective_def slice0_def)
  have a0: "accuracy_value [2, 3] [2, 1] = Float (1 / 2)"
    by (simp add: accuracy_value_def)
  have a1: "accuracy_value [2, 3] [2, 3] = Float 1"
    by (simp add: accuracy_value_def)
  have lm: "(\<lambda>k. if 0 \<le> k \<and> k < int (length (hd [[2, 1], [1, 3::int]]))
                 then Some (accuracy_value [2, 3] (column [2, 3] [[2, 1], [1, 3]] k)) else None)
        = [0 \<mapsto> Float (1 / 2), 1 \<mapsto> Float 1]"
    by (auto simp: fun_eq_iff beam_keys_two c0 c1 a0 a1)
  have rng: "py_range 4 = [0, 1, 2, 3]"
    by (simp add: py_range_conv upt_rec)
  have names: "py_str 0 = ''0''" "py_str 1 = ''1''" "py_str 2 = ''2''" "py_str 3 = ''3''"
    by code_simp+
  have pairs: "length_pairs [2, 3] [2, 3] 3
     = [\<lparr>label_scores = [0, 0, 1, 0], predicted_label = 2, expected_label = 2\<rparr>,
        \<lparr>label_scores = [0, 0, 0, 1], predicted_label = 3, expected_label = 3\<rparr>]"
    by (simp add: length_pairs_def one_hot_def rng)
  have mx: "Max (set ([2, 3] @ [2, 3::int])) = 3" by simp
  show ?thesis
    unfolding compute_length_metrics_eq[of "[[2, 1], [1, 3]]", simplified] lm c1 mx
    by (simp add: spec_externals_def rng names pairs)
qed

lemma length_metrics_example_top1:
  "compute_length_metrics
     (spec_externals :: (int \<times> int, unit, unit, unit,
                         LabelPrediction list \<times> string list \<times> real) externals)
     [2, 3] [[2, 1], [3, 1]] 0
   = Inr ([0 \<mapsto> Float 1, 1 \<mapsto> Float 1],
          Report ([\<lparr>label_scores = [0, 0, 1, 0], predicted_label = 2, expected_label = 2\<rparr>,
                   \<lparr>label_scores = [0, 0, 0, 1], predicted_label = 3, expected_label = 3\<rparr>],
                  [''0'', ''1'', ''2'', ''3''], 0))"
proof -
  have c0: "column [2, 3] [[2, 1], [3, 1]] 0 = [2, 3]"
    by (simp add: column_def effective_def slice0_def)
  have c1: "column [2, 3] [[2, 1], [3, 1]] 1 = [2, 3]"
    by (simp add: column_def effective_def slice0_def)
  have a1: "accuracy_value [2, 3] [2, 3] = Float 1"
    by (simp add: accuracy_value_def)
  have lm: "(\<lambda>k. if 0 \<le> k \<and> k < int (length (hd [[2, 1], [3, 1::int]]))
                 then Some (accuracy_value [2, 3] (column [2, 3] [[2, 1], [3, 1]] k)) else None)
        = [0 \<mapsto> Float 1, 1 \<mapsto> Float 1]"
    by (auto simp: fun_eq_iff beam_keys_two c0 c1 a1)
  have rng: "py_range 4 = [0, 1, 2, 3]"
    by (simp add: py_range_conv upt_rec)
  have names: "py_str 0 = ''0''" "py_str 1 = ''1''" "py_str 2 = ''2''" "py_str 3 = ''3''"
    by code_simp+
  have pairs: "length_pairs [2, 3] [2, 3] 3
     = [\<lparr>label_scores = [0, 0, 1, 0], predicted_label = 2, expected_label = 2\<rparr>,
        \<lparr>label_scores = [0, 0, 0, 1], predicted_label = 3, expected_label = 3\<rparr>]"
    by (simp add: length_pairs_def one_hot_def rng)
  have mx: "Max (set ([2, 3] @ [2, 3::int])) = 3" by simp
  show ?thesis
    unfolding compute_length_metrics_eq[of "[[2, 1], [3, 1]]", simplified] lm c0 mx
    by (simp add: spec_externals_def rng names pairs)
qed

theorem length_metrics_accuracy_witness:
  "compute_length_metrics
     (spec_externals :: (int \<times> int, unit, unit, unit,
                         LabelPrediction list \<times> string list \<times> real) externals)
     [2, 3] [[2, 1], [1, 3]] 1
   = Inr ([0 \<mapsto> Float (1 / 2), 1 \<mapsto> Float 1],
          Report ([\<lparr>label_scores = [0, 0, 1, 0], predicted_label = 2, expected_label = 2\<rparr>,
                   \<lparr>label_scores = [0, 0, 0, 1], predicted_label = 3, expected_label = 3\<rparr>],
                  [''0'', ''1'', ''2'', ''3''], 0))
   \<and> real (card {i. i < length [2, 3::int]
                    \<and> effective_prediction [2, 3] [[2, 1], [1, 3]] i 0 = [2, 3] ! i})
       / real (length [2, 3::int]) = 1 / 2
   \<and> real (card {i. i < length [2, 3::int]
                    \<and> effective_prediction [2, 3] [[2, 1], [1, 3]] i 1 = [2, 3] ! i})
       / real (length [2, 3::int]) = 1
   \<and> [2, 3::int] ! 0 = [[2, 1], [3, 1]] ! 0 ! 0
   \<and> [2, 3::int] ! 1 = [[2, 1], [3, 1]] ! 1 ! 0
   \<and> ([0 \<mapsto> Float 1, 1 \<mapsto> Float 1] :: int \<rightharpoonup> pyfloat) 0 = Some (Float 1)
   \<and> compute_length_metrics
     (spec_externals :: (int \<times> int, unit, unit, unit,
                         LabelPrediction list \<times> string list \<times> real) externals)
     [2, 3] [[2, 1], [3, 1]] 0
   = Inr ([0 \<mapsto> Float 1, 1 \<mapsto> Float 1],
          Report ([\<lparr>label_scores = [0, 0, 1, 0], predicted_label = 2, expected_label = 2\<rparr>,
                   \<lparr>label_scores = [0, 0, 0, 1], predicted_label = 3, expected_label = 3\<rparr>],
                  [''0'', ''1'', ''2'', ''3''], 0))"
proof -
  have ne: "[[2, 1], [1, 3::int]] \<noteq> []" "[[2, 1], [3, 1::int]] \<noteq> []" by simp_all
  have w: "\<forall>p\<in>set [[2, 1], [1, 3::int]]. length p = 2"
          "\<forall>p\<in>set [[2, 1], [3, 1::int]]. length p = 2" by simp_all
  have n: "length [2, 3::int] = length [[2, 1], [1, 3::int]]"
          "length [2, 3::int] = length [[2, 1], [3, 1::int]]" by simp_all
  have first: "\<forall>i<length [2, 3::int]. [2, 3] ! i = [[2, 1], [3, 1]] ! i ! 0"
    by (simp add: less_Suc_eq)
  note a = length_metrics_accuracy[OF length_metrics_example ne(1) w(1) n(1)]
  note b = length_metrics_accuracy[OF length_metrics_example_top1 ne(2) w(2) n(2)]
  have lt: "(0::nat) < 2" "(1::nat) < 2" by simp_all
  from a lt(1) have "([0 \<mapsto> Float (1 / 2), 1 \<mapsto> Float 1] :: int \<rightharpoonup> pyfloat) (int 0)
      = Some (Float (real (card {i. i < length [2, 3::int]
                    \<and> effective_prediction [2, 3] [[2, 1], [1, 3]] i 0 = [2, 3] ! i})
       / real (length [2, 3::int])))" by blast
  then have a0: "real (card {i. i < length [2, 3::int]
                    \<and> effective_prediction [2, 3] [[2, 1], [1, 3]] i 0 = [2, 3] ! i})
       / real (length [2, 3::int]) = 1 / 2" by simp
  from a lt(2) have "([0 \<mapsto> Float (1 / 2), 1 \<mapsto> Float 1] :: int \<rightharpoonup> pyfloat) (int 1)
      = Some (Float (real (card {i. i < length [2, 3::int]
                    \<and> effective_prediction [2, 3] [[2, 1], [1, 3]] i 1 = [2, 3] ! i})
       / real (length [2, 3::int])))" by blast
  then have a1: "real (card {i. i < length [2, 3::int]
                    \<and> effective_prediction [2, 3] [[2, 1], [1, 3]] i 1 = [2, 3] ! i})
       / real (length [2, 3::int]) = 1" by simp
  from b first have b0: "([0 \<mapsto> Float 1, 1 \<mapsto> Float 1] :: int \<rightharpoonup> pyfloat) 0 = Some (Float 1)"
    by blast
  have f0: "[2, 3::int] ! 0 = [[2, 1], [3, 1]] ! 0 ! 0" by simp
  have f1: "[2, 3::int] ! 1 = [[2, 1], [3, 1]] ! 1 ! 0" by simp
  show ?thesis using length_metrics_example length_metrics_example_top1 a0 a1 f0 f1 b0
    by (intro conjI)
qed

theorem length_metrics_monotone_witness:
  "compute_length_metrics
     (spec_externals :: (int \<times> int, unit, unit, unit,
                         LabelPrediction list \<times> string list \<times> real) externals)
     [2, 3] [[2, 1], [1, 3]] 1
   = Inr ([0 \<mapsto> Float (1 / 2), 1 \<mapsto> Float 1],
          Report ([\<lparr>label_scores = [0, 0, 1, 0], predicted_label = 2, expected_label = 2\<rparr>,
                   \<lparr>label_scores = [0, 0, 0, 1], predicted_label = 3, expected_label = 3\<rparr>],
                  [''0'', ''1'', ''2'', ''3''], 0))
   \<and> (\<exists>x y. ([0 \<mapsto> Float (1 / 2), 1 \<mapsto> Float 1] :: int \<rightharpoonup> pyfloat) (int 2 - 1) = Some (Float x)
          \<and> ([0 \<mapsto> Float (1 / 2), 1 \<mapsto> Float 1] :: int \<rightharpoonup> pyfloat) (int 0) = Some (Float y)
          \<and> y \<le> x)"
proof -
  have ne: "[[2, 1], [1, 3::int]] \<noteq> []" by simp
  have w: "\<forall>p\<in>set [[2, 1], [1, 3::int]]. length p = 2" by simp
  have n: "length [2, 3::int] = length [[2, 1], [1, 3::int]]" by simp
  note a = length_metrics_monotone[OF length_metrics_example ne w n]
  have "(0::nat) < 2" by simp
  with a have "\<exists>x y. ([0 \<mapsto> Float (1 / 2), 1 \<mapsto> Float 1] :: int \<rightharpoonup> pyfloat) (int 2 - 1) = Some (Float x)
          \<and> ([0 \<mapsto> Float (1 / 2), 1 \<mapsto> Float 1] :: int \<rightharpoonup> pyfloat) (int 0) = Some (Float y)
          \<and> y \<le> x" by blast
  then show ?thesis using length_metrics_example by (intro conjI)
qed

theorem length_report_delegation_witness:
  "compute_length_metrics
     (spec_externals :: (int \<times> int, unit, unit, unit,
                         LabelPrediction list \<times> string list \<times> real) externals)
     [2, 3] [[2, 1], [1, 3]] 1
   = Inr ([0 \<mapsto> Float (1 / 2), 1 \<mapsto> Float 1],
          Report ([\<lparr>label_scores = [0, 0, 1, 0], predicted_label = 2, expected_label = 2\<rparr>,
                   \<lparr>label_scores = [0, 0, 0, 1], predicted_label = 3, expected_label = 3\<rparr>],
                  [''0'', ''1'', ''2'', ''3''], 0))
   \<and> map (\<lambda>i. \<lparr>label_scores =
                  one_hot_vector (nat (report_max_len [2, 3] [[2, 1], [1, 3]] (nat 1) + 1))
                    (effective_prediction [2, 3] [[2, 1], [1, 3]] i (nat 1)),
                predicted_label = effective_prediction [2, 3] [[2, 1], [1, 3]] i (nat 1),
                expected_label = [2, 3] ! i\<rparr>) [0..<length [2, 3::int]]
     = [\<lparr>label_scores = [0, 0, 1, 0], predicted_label = 2, expected_label = 2\<rparr>,
        \<lparr>label_scores = [0, 0, 0, 1], predicted_label = 3, expected_label = 3\<rparr>]
   \<and> label_names (nat (report_max_len [2, 3] [[2, 1], [1, 3]] (nat 1) + 1))
     = [''0'', ''1'', ''2'', ''3'']"
proof -
  have ne: "[[2, 1], [1, 3::int]] \<noteq> []" by simp
  let ?ext = "spec_externals :: (int \<times> int, unit, unit, unit,
                         LabelPrediction list \<times> string list \<times> real) externals"
  let ?X = "map (\<lambda>i. \<lparr>label_scores =
                  one_hot_vector (nat (report_max_len [2, 3] [[2, 1], [1, 3]] (nat 1) + 1))
                    (effective_prediction [2, 3] [[2, 1], [1, 3]] i (nat 1)),
                predicted_label = effective_prediction [2, 3] [[2, 1], [1, 3]] i (nat 1),
                expected_label = [2, 3] ! i\<rparr>) [0..<length [2, 3::int]]"
  let ?Y = "label_names (nat (report_max_len [2, 3] [[2, 1], [1, 3]] (nat 1) + 1))"
  from length_report_delegation[OF length_metrics_example ne]
  obtain r where r: "Report ([\<lparr>label_scores = [0, 0, 1, 0], predicted_label = 2, expected_label = 2\<rparr>,
                   \<lparr>label_scores = [0, 0, 0, 1], predicted_label = 3, expected_label = 3\<rparr>],
                  [''0'', ''1'', ''2'', ''3''], 0) = Report r"
    and c: "compute_classification_metrics ?ext ?X ?Y 0 = Inr r"
    by blast
  have "compute_classification_metrics ?ext ?X ?Y 0 = Inr (?X, ?Y, 0)"
    by (simp only: spec_externals_def externals.simps)
  with c have "r = (?X, ?Y, 0)" by simp
  with r have "?X = [\<lparr>label_scores = [0, 0, 1, 0], predicted_label = 2, expected_label = 2\<rparr>,
                   \<lparr>label_scores = [0, 0, 0, 1], predicted_label = 3, expected_label = 3\<rparr>]"
     and "?Y = [''0'', ''1'', ''2'', ''3'']"
    by simp_all
  then show ?thesis using length_metrics_example by (intro conjI)
qed

subsection \<open>The result records and the objective\<close>

lemma nas_objective_absent:
  "nas_objective ops None mnp rmnp rfa alpha
     = (case float_pow ops rmnp alpha of Inl e \<Rightarrow> Inl e | Inr ref_pow \<Rightarrow> Inl TypeError)"
  by (simp add: nas_objective_def split: sum.splits)

lemma nas_objective_symbolic:
  "nas_objective symbolic_ops (Some fa) mnp rmnp rfa alpha
     = Inr (Div (Mul fa (Pow rmnp alpha)) (Mul rfa (Pow mnp alpha)))"
  by (simp add: nas_objective_def symbolic_ops_def)

lemma compute_length_metrics_Nil:
  "compute_length_metrics ext L [] b = Inr (Map.empty, EmptyDict)"
  by (simp add: compute_length_metrics_def)

lemma frame_accuracy_of_zero: "frame_accuracy_of [(1::int, 2::int)] = 0"
  by (simp add: frame_accuracy_of_def)

lemma masked_spec_example:
  "compute_masked_metrics spec_externals fp L [] b t1 t2 t3 t4 t5 om apf cl lm ni ex pl =
     Inr \<lparr>top_intent_accuracy = (if t1 then Some (frame_accuracy_of fp) else None),
          frame_accuracy = (if t2 then Some (frame_accuracy_of fp) else None),
          frame_accuracy_top_k = Some 0,
          frame_accuracies_by_depth = (if t3 then Some () else None),
          bracket_metrics = (if t4 then Some () else None),
          tree_metrics = (if t5 then Some () else None),
          loss = cl, length_metrics = Map.empty, length_reports = EmptyDict,
          non_invalid_fa = (case ni of None \<Rightarrow> 0 | Some ps \<Rightarrow> frame_accuracy_of ps),
          extracted_fa = (case ex of None \<Rightarrow> 0 | Some ps \<Rightarrow> frame_accuracy_of ps),
          print_length_metrics = pl\<rparr>"
  by (simp add: compute_masked_metrics_def spec_externals_def compute_length_metrics_Nil
        split: option.splits)

lemma frame_accuracy_of_one: "frame_accuracy_of [(1::int, 1::int)] = 1"
  by (simp add: frame_accuracy_of_def)

text \<open>
  C5, as stated, fails: with the \<open>frame_accuracy\<close> toggle \<open>False\<close> the call returns a
  record whose frame accuracy is populated, and an objective computed from it.
\<close>
theorem nas_frame_accuracy_toggle_counterexample:
  "compute_nas_masked_metrics symbolic_ops spec_externals [(1::int, 1::int)] [] [] 0
     True False True True True False (None :: unit list list option) None None None None
     1 1 1 1
   = Inr \<lparr>top_intent_accuracy = Some 1, frame_accuracy = Some 1,
          frame_accuracy_top_k = Some 0, frame_accuracies_by_depth = Some (),
          bracket_metrics = Some (), tree_metrics = Some (), loss = None,
          length_metrics = Map.empty, length_reports = EmptyDict,
          non_invalid_fa = 0, extracted_fa = 0, print_length_metrics = True,
          model_num_param = 1,
          norm_prod_model_param_frame_accuracy = Div (Mul 1 (Pow 1 1)) (Mul 1 (Pow 1 1))\<rparr>"
  by (simp add: compute_nas_masked_metrics_def masked_spec_example frame_accuracy_of_one
        nas_objective_symbolic)

text \<open>
  C5, amended. The \<open>frame_accuracy\<close> toggle of \<open>compute_nas_masked_metrics\<close> is not
  passed on: the call with the toggle \<open>False\<close> is the call with the toggle \<open>True\<close>. When
  the masked metrics nevertheless carry no frame accuracy, the call raises (the exception
  of the power in the numerator if that raises, and otherwise TypeError from the product)
  and no objective is computed from a substituted zero.
\<close>
theorem nas_frame_accuracy_toggle_ignored:
  "compute_nas_masked_metrics ops ext fp L P b t1 False t3 t4 t5 om apf cl lm ni ex
       mnp rmnp rfa alpha
     = compute_nas_masked_metrics ops ext fp L P b t1 True t3 t4 t5 om apf cl lm ni ex
         mnp rmnp rfa alpha
   \<and> (\<forall>m. compute_masked_metrics ext fp L P b True True True True True True apf cl None
              ni ex True = Inr m \<and> frame_accuracy m = None
          \<longrightarrow> compute_nas_masked_metrics ops ext fp L P b t1 False t3 t4 t5 om apf cl lm ni ex
                 mnp rmnp rfa alpha
              = (case float_pow ops rmnp alpha of
                   Inl e \<Rightarrow> Inl e
                 | Inr ref_pow \<Rightarrow> Inl TypeError)
            \<and> (\<exists>e. compute_nas_masked_metrics ops ext fp L P b t1 False t3 t4 t5 om apf cl lm
                      ni ex mnp rmnp rfa alpha = Inl e))"
  by (auto simp: compute_nas_masked_metrics_def nas_objective_absent split: sum.splits)

theorem nas_frame_accuracy_toggle_ignored_witness:
  "compute_masked_metrics no_frame_accuracy_externals [(1, 1)] [] [] 0
       True True True True True True None None None None None True
     = Inr \<lparr>top_intent_accuracy = None, frame_accuracy = None,
          frame_accuracy_top_k = None, frame_accuracies_by_depth = None,
          bracket_metrics = None, tree_metrics = None, loss = None,
          length_metrics = Map.empty, length_reports = EmptyDict,
          non_invalid_fa = 0, extracted_fa = 0, print_length_metrics = True\<rparr>
   \<and> compute_nas_masked_metrics symbolic_ops no_frame_accuracy_externals [(1, 1)] [] [] 0
       True False True True True False None None None None None 1 1 1 1 = Inl TypeError
   \<and> compute_nas_masked_metrics symbolic_ops no_frame_accuracy_externals [(1, 1)] [] [] 0
       True True True True True False None None None None None 1 1 1 1 = Inl TypeError"
proof -
  let ?m = "\<lparr>top_intent_accuracy = None, frame_accuracy = None,
          frame_accuracy_top_k = None, frame_accuracies_by_depth = None,
          bracket_metrics = None, tree_metrics = None, loss = None,
          length_metrics = Map.empty,
          length_reports = (EmptyDict :: (LabelPrediction list \<times> string list \<times> real) length_report),
          non_invalid_fa = 0, extracted_fa = 0, print_length_metrics = True\<rparr>"
  have h: "compute_masked_metrics no_frame_accuracy_externals [(1, 1)] [] [] 0
       True True True True True True None None None None None True = Inr ?m"
    by (simp add: compute_masked_metrics_def no_frame_accuracy_externals_def spec_externals_def
          compute_length_metrics_Nil)
  have fa: "frame_accuracy ?m = None" by simp
  have pw: "float_pow symbolic_ops 1 1 = Inr (Pow 1 1)" by (simp add: symbolic_ops_def)
  from nas_frame_accuracy_toggle_ignored[of symbolic_ops no_frame_accuracy_externals "[(1, 1)]"
         "[]" "[]" 0 True True True True False None None None None None 1 1 1 1] h fa pw
  show ?thesis by auto
qed

text \<open>
  C7. If the frame-accuracy helper returns 0 for an absent argument, then an absent
  non-invalid (extracted) subset gives \<open>non_invalid_fa = 0\<close> (\<open>extracted_fa = 0\<close>), and
  the result is the same record as for a present subset that scores 0.
\<close>
theorem masked_absent_subset_zero:
  assumes "compute_frame_accuracy ext None = Inr 0"
  shows "(\<forall>m. compute_masked_metrics ext fp L P b t1 t2 t3 t4 t5 om apf cl lm None ex pl = Inr m
            \<longrightarrow> non_invalid_fa m = 0)
       \<and> (\<forall>m. compute_masked_metrics ext fp L P b t1 t2 t3 t4 t5 om apf cl lm ni None pl = Inr m
            \<longrightarrow> extracted_fa m = 0)
       \<and> (\<forall>ps. compute_frame_accuracy ext (Some ps) = Inr 0
            \<longrightarrow> compute_masked_metrics ext fp L P b t1 t2 t3 t4 t5 om apf cl lm (Some ps) ex pl
                  = compute_masked_metrics ext fp L P b t1 t2 t3 t4 t5 om apf cl lm None ex pl
                \<and> compute_masked_metrics ext fp L P b t1 t2 t3 t4 t5 om apf cl lm ni (Some ps) pl
                  = compute_masked_metrics ext fp L P b t1 t2 t3 t4 t5 om apf cl lm ni None pl)"
  using assms
  by (auto simp: compute_masked_metrics_def split: sum.splits prod.splits)

theorem masked_absent_subset_zero_witness:
  "compute_frame_accuracy
       (spec_externals :: (int \<times> int, unit, unit, unit,
                           LabelPrediction list \<times> string list \<times> real) externals) None = Inr 0
   \<and> compute_masked_metrics spec_externals [(1::int, 1::int)] [] [] 0
       True True True True True False (None :: unit list list option) None None
       None None True
     = Inr \<lparr>top_intent_accuracy = Some 1, frame_accuracy = Some 1,
          frame_accuracy_top_k = Some 0, frame_accuracies_by_depth = Some (),
          bracket_metrics = Some (), tree_metrics = Some (), loss = None,
          length_metrics = Map.empty, length_reports = EmptyDict,
          non_invalid_fa = 0, extracted_fa = 0, print_length_metrics = True\<rparr>
   \<and> compute_frame_accuracy
       (spec_externals :: (int \<times> int, unit, unit, unit,
                           LabelPrediction list \<times> string list \<times> real) externals)
       (Some [(1, 2)]) = Inr 0
   \<and> compute_masked_metrics spec_externals [(1::int, 1::int)] [] [] 0
       True True True True True False (None :: unit list list option) None None
       (Some [(1, 2)]) None True
     = compute_masked_metrics spec_externals [(1::int, 1::int)] [] [] 0
       True True True True True False (None :: unit list list option) None None
       None None True
   \<and> compute_masked_metrics spec_externals [(1::int, 1::int)] [] [] 0
       True True True True True False (None :: unit list list option) None None
       None (Some [(1, 2)]) True
     = compute_masked_metrics spec_externals [(1::int, 1::int)] [] [] 0
       True True True True True False (None :: unit list list option) None None
       None None True"
proof -
  let ?ext = "spec_externals :: (int \<times> int, unit, unit, unit,
                           LabelPrediction list \<times> string list \<times> real) externals"
  have a: "compute_frame_accuracy ?ext None = Inr 0"
    by (simp add: spec_externals_def)
  have p: "compute_frame_accuracy ?ext (Some [(1, 2)]) = Inr 0"
    by (simp add: spec_externals_def frame_accuracy_of_zero)
  have h: "compute_masked_metrics ?ext [(1, 1)] [] [] 0
       True True True True True False None None None None None True
     = Inr \<lparr>top_intent_accuracy = Some 1, frame_accuracy = Some 1,
          frame_accuracy_top_k = Some 0, frame_accuracies_by_depth = Some (),
          bracket_metrics = Some (), tree_metrics = Some (), loss = None,
          length_metrics = Map.empty, length_reports = EmptyDict,
          non_invalid_fa = 0, extracted_fa = 0, print_length_metrics = True\<rparr>"
    by (simp add: masked_spec_example frame_accuracy_of_one)
  note t = masked_absent_subset_zero[OF a, of "[(1, 1)]" "[]" "[]" 0 True True True True True
             False None None None None True None]
  from t p have
    "compute_masked_metrics ?ext [(1, 1)] [] [] 0
       True True True True True False None None None (Some [(1, 2)]) None True
     = compute_masked_metrics ?ext [(1, 1)] [] [] 0
       True True True True True False None None None None None True"
    "compute_masked_metrics ?ext [(1, 1)] [] [] 0
       True True True True True False None None None None (Some [(1, 2)]) True
     = compute_masked_metrics ?ext [(1, 1)] [] [] 0
       True True True True True False None None None None None True"
    by blast+
  then show ?thesis using a p h by (intro conjI)
qed

text \<open>
  C8. The record that \<open>compute_nas_masked_metrics\<close> returns has every base field of the
  masked metrics it was computed from; the two further fields are the parameter count and
  the objective.
\<close>
theorem nas_preserves_base_fields:
  assumes "compute_nas_masked_metrics ops ext fp L P b t1 t2 t3 t4 t5 om apf cl lm ni ex
             mnp rmnp rfa alpha = Inr r"
  shows "\<exists>m. compute_masked_metrics ext fp L P b True True True True True True apf cl None
               ni ex True = Inr m
     \<and> top_intent_accuracy r = top_intent_accuracy m
     \<and> frame_accuracy r = frame_accuracy m
     \<and> frame_accuracy_top_k r = frame_accuracy_top_k m
     \<and> frame_accuracies_by_depth r = frame_accuracies_by_depth m
     \<and> bracket_metrics r = bracket_metrics m
     \<and> tree_metrics r = tree_metrics m
     \<and> loss r = loss m
     \<and> length_metrics r = length_metrics m
     \<and> length_reports r = length_reports m
     \<and> non_invalid_fa r = non_invalid_fa m
     \<and> extracted_fa r = extracted_fa m
     \<and> MaskedSeq2SeqJointMetrics.truncate r = m
     \<and> model_num_param r = mnp
     \<and> nas_objective ops (frame_accuracy m) mnp rmnp rfa alpha
          = Inr (norm_prod_model_param_frame_accuracy r)"
  using assms
  by (auto simp: compute_nas_masked_metrics_def MaskedSeq2SeqJointMetrics.truncate_def
        compute_masked_metrics_def split: sum.splits prod.splits)

theorem nas_preserves_base_fields_witness:
  "\<exists>m. compute_masked_metrics spec_externals [(1::int, 1::int)] [] [] 0
          True True True True True True (None :: unit list list option) (Some 2) None None None
          True = Inr m
     \<and> MaskedSeq2SeqJointMetrics.truncate
         \<lparr>top_intent_accuracy = Some 1, frame_accuracy = Some 1,
          frame_accuracy_top_k = Some 0, frame_accuracies_by_depth = Some (),
          bracket_metrics = Some (), tree_metrics = Some (), loss = Some 2,
          length_metrics = Map.empty, length_reports = EmptyDict,
          non_invalid_fa = 0, extracted_fa = 0, print_length_metrics = True,
          model_num_param = 1,
          norm_prod_model_param_frame_accuracy = Div (Mul 1 (Pow 1 1)) (Mul 1 (Pow 1 1))\<rparr> = m
     \<and> loss m = Some 2 \<and> frame_accuracy m = Some 1"
proof -
  have h: "compute_nas_masked_metrics symbolic_ops spec_externals [(1::int, 1::int)] [] [] 0
     True False True True True False (None :: unit list list option) (Some 2) None None None
     1 1 1 1
   = Inr \<lparr>top_intent_accuracy = Some 1, frame_accuracy = Some 1,
          frame_accuracy_top_k = Some 0, frame_accuracies_by_depth = Some (),
          bracket_metrics = Some (), tree_metrics = Some (), loss = Some 2,
          length_metrics = Map.empty, length_reports = EmptyDict,
          non_invalid_fa = 0, extracted_fa = 0, print_length_metrics = True,
          model_num_param = 1,
          norm_prod_model_param_frame_accuracy = Div (Mul 1 (Pow 1 1)) (Mul 1 (Pow 1 1))\<rparr>"
    by (simp add: compute_nas_masked_metrics_def masked_spec_example frame_accuracy_of_one
        nas_objective_symbolic)
  from nas_preserves_base_fields[OF h] show ?thesis by auto
qed

text \<open>
  C10. The \<open>length_metrics\<close> argument of \<open>compute_masked_metrics\<close> has no effect: two
  calls that differ only in it are equal, and the two length fields of the result are
  what \<open>compute_length_metrics\<close> returns on the lengths, the predictions and the beam.
\<close>
theorem masked_ignores_length_metrics:
  "compute_masked_metrics ext fp L P b t1 t2 t3 t4 t5 om apf cl lm1 ni ex pl
     = compute_masked_metrics ext fp L P b t1 t2 t3 t4 t5 om apf cl lm2 ni ex pl
   \<and> (\<forall>m. compute_masked_metrics ext fp L P b t1 t2 t3 t4 t5 om apf cl lm1 ni ex pl = Inr m
          \<longrightarrow> compute_length_metrics ext L P b = Inr (length_metrics m, length_reports m))"
  by (auto simp: compute_masked_metrics_def split: sum.splits prod.splits)

theorem masked_ignores_length_metrics_witness:
  "compute_masked_metrics spec_externals [(1::int, 1::int)] [] [] 0
       True True True True True False (None :: unit list list option) None
       (Some [0 \<mapsto> Float 1]) None None True
     = compute_masked_metrics spec_externals [(1::int, 1::int)] [] [] 0
       True True True True True False (None :: unit list list option) None
       None None None True
   \<and> compute_masked_metrics spec_externals [(1::int, 1::int)] [] [] 0
       True True True True True False (None :: unit list list option) None
       (Some [0 \<mapsto> Float 1]) None None True
     = Inr \<lparr>top_intent_accuracy = Some 1, frame_accuracy = Some 1,
          frame_accuracy_top_k = Some 0, frame_accuracies_by_depth = Some (),
          bracket_metrics = Some (), tree_metrics = Some (), loss = None,
          length_metrics = Map.empty, length_reports = EmptyDict,
          non_invalid_fa = 0, extracted_fa = 0, print_length_metrics = True\<rparr>
   \<and> compute_length_metrics
        (spec_externals :: (int \<times> int, unit, unit, unit,
                           LabelPrediction list \<times> string list \<times> real) externals) [] [] 0
     = Inr (Map.empty, EmptyDict)"
proof -
  let ?ext = "spec_externals :: (int \<times> int, unit, unit, unit,
                           LabelPrediction list \<times> string list \<times> real) externals"
  have h: "compute_masked_metrics ?ext [(1, 1)] [] [] 0
       True True True True True False None None (Some [0 \<mapsto> Float 1]) None None True
     = Inr \<lparr>top_intent_accuracy = Some 1, frame_accuracy = Some 1,
          frame_accuracy_top_k = Some 0, frame_accuracies_by_depth = Some (),
          bracket_metrics = Some (), tree_metrics = Some (), loss = None,
          length_metrics = Map.empty, length_reports = EmptyDict,
          non_invalid_fa = 0, extracted_fa = 0, print_length_metrics = True\<rparr>"
    by (simp add: masked_spec_example frame_accuracy_of_one)
  from masked_ignores_length_metrics[of ?ext "[(1, 1)]" "[]" "[]" 0 True True True True True
         False None None "Some [0 \<mapsto> Float 1]" None None True None] h
  show ?thesis by auto
qed

end
